theory Spec2Isabelle
  imports Complex_Main
begin

section \<open>Wire length and voltage drop helper: the calculation core\<close>

text \<open>
  A shallow embedding of the calculation functions of \<^verbatim>\<open>wire_calculator_app.py\<close>.
  Python floats are idealised as \<^typ>\<open>real\<close> (exact arithmetic: no rounding, no
  infinities, and \<open>NaN\<close> only as the blank cell of the runs table), Python integers are
  \<^typ>\<open>int\<close>, text is \<^typ>\<open>string\<close> (ASCII), and exceptions are values of
  \<open>py_error\<close>.
\<close>

datatype py_error = ZeroDivisionError | KeyError | IndexError

subsection \<open>Resistance tables\<close>

text \<open>
  The two dictionaries, in the order the source writes them (ohms per 1000 ft).
\<close>

type_synonym ohms_table = "(int \<times> real) list"

definition COPPER_OHMS_PER_KFT :: ohms_table where
  "COPPER_OHMS_PER_KFT =
     [(14, 2.525), (12, 1.588), (10, 0.999), (8, 0.6282), (6, 0.3951), (4, 0.2485),
      (3, 0.1970), (2, 0.1563), (1, 0.1239), (0, 0.0983), (-1, 0.0779), (-2, 0.0618),
      (-3, 0.0490)]"

definition AL_OHMS_PER_KFT :: ohms_table where
  "AL_OHMS_PER_KFT =
     [(12, 2.52), (10, 1.588), (8, 0.999), (6, 0.6282), (4, 0.3951), (3, 0.3133),
      (2, 0.2485), (1, 0.1970), (0, 0.1563), (-1, 0.1239), (-2, 0.0983), (-3, 0.0779)]"

text \<open>\<open>table.keys()\<close> and \<open>sorted(..., reverse=True)\<close>.\<close>

definition keys :: "ohms_table \<Rightarrow> int list" where
  "keys table = map fst table"

definition sorted_desc :: "int list \<Rightarrow> int list" where
  "sorted_desc xs = rev (sort xs)"

subsection \<open>Gauge selection by voltage drop\<close>

text \<open>
  The \<open>for size in sizes\<close> loop of \<open>suggest_awg\<close>: \<open>Inr (Some r)\<close> is the early
  \<open>return size, v_drop\<close>, \<open>Inr None\<close> is falling out of the loop. \<open>table[size]\<close>
  raises \<open>KeyError\<close> on a missing key and the float division raises
  \<open>ZeroDivisionError\<close> when \<open>volts\<close> is zero.
\<close>

fun awg_loop ::
  "ohms_table \<Rightarrow> real \<Rightarrow> real \<Rightarrow> real \<Rightarrow> real \<Rightarrow> int list \<Rightarrow> py_error + (int \<times> real) option"
where
  "awg_loop table amps volts one_way_length_ft max_drop_pct [] = Inr None"
| "awg_loop table amps volts one_way_length_ft max_drop_pct (sz # rest) =
     (case map_of table sz of
        None \<Rightarrow> Inl KeyError
      | Some r \<Rightarrow>
          (let r_per_ft = r / 1000;
               v_drop = 2 * amps * r_per_ft * one_way_length_ft
           in if volts = 0 then Inl ZeroDivisionError
              else if (v_drop / volts) * 100 \<le> max_drop_pct then Inr (Some (sz, v_drop))
              else awg_loop table amps volts one_way_length_ft max_drop_pct rest))"

definition table_for :: "string \<Rightarrow> ohms_table" where
  "table_for material =
     (if material = ''aluminum'' then AL_OHMS_PER_KFT else COPPER_OHMS_PER_KFT)"

definition suggest_awg ::
  "string \<Rightarrow> real \<Rightarrow> real \<Rightarrow> real \<Rightarrow> real \<Rightarrow> py_error + (int \<times> real)"
where
  "suggest_awg material amps volts one_way_length_ft max_drop_pct =
     (let table = table_for material;
          sizes = sorted_desc (keys table)
      in case awg_loop table amps volts one_way_length_ft max_drop_pct sizes of
           Inl e \<Rightarrow> Inl e
         | Inr (Some r) \<Rightarrow> Inr r
         | Inr None \<Rightarrow>
             (if sizes = [] then Inl IndexError
              else case map_of table (last sizes) of
                     None \<Rightarrow> Inl KeyError
                   | Some r \<Rightarrow> Inr (last sizes, 2 * amps * (r / 1000) * one_way_length_ft)))"

text \<open>The quantities the specification names, for stating the properties.\<close>

definition ohms :: "ohms_table \<Rightarrow> int \<Rightarrow> real" where
  "ohms table sz = (case map_of table sz of Some r \<Rightarrow> r | None \<Rightarrow> 0)"

definition drop_volts :: "ohms_table \<Rightarrow> real \<Rightarrow> real \<Rightarrow> int \<Rightarrow> real" where
  "drop_volts table amps one_way_ft sz = 2 * amps * (ohms table sz / 1000) * one_way_ft"

definition drop_pct :: "ohms_table \<Rightarrow> real \<Rightarrow> real \<Rightarrow> real \<Rightarrow> int \<Rightarrow> real" where
  "drop_pct table amps volts one_way_ft sz =
     (drop_volts table amps one_way_ft sz / volts) * 100"

subsection \<open>Gauge labels\<close>

text \<open>
  \<open>f"{n}"\<close> on an integer: its decimal digits, with a minus sign when negative.
\<close>

definition digit_char :: "nat \<Rightarrow> char" where
  "digit_char k = ''0123456789'' ! k"

fun str_nat :: "nat \<Rightarrow> string" where
  "str_nat n = (if n < 10 then [digit_char n] else str_nat (n div 10) @ [digit_char (n mod 10)])"

declare str_nat.simps [simp del]

definition str_int :: "int \<Rightarrow> string" where
  "str_int n = (if n < 0 then CHR ''-'' # str_nat (nat (- n)) else str_nat (nat n))"

definition awg_label :: "int \<Rightarrow> string" where
  "awg_label n =
     (if n \<ge> 0 then str_int n @ '' AWG''
      else case map_of [(-1, ''2/0 AWG''), (-2, ''3/0 AWG''), (-3, ''4/0 AWG'')] n of
             Some l \<Rightarrow> l
           | None \<Rightarrow> str_int n)"

subsection \<open>Character classes of the patterns\<close>

text \<open>
  ASCII text: \<open>\d\<close> is a decimal digit, \<open>\s\<close> and \<open>str.strip\<close> take the characters
  Python counts as whitespace (tab to carriage return, the four separators 28 to 31 and
  the space), \<open>\w\<close> is a letter, a digit or the underscore, and \<open>re.I\<close> compares
  letters by their lower case.
\<close>

definition is_digit :: "char \<Rightarrow> bool" where
  "is_digit c = (c \<in> set ''0123456789'')"

definition is_space :: "char \<Rightarrow> bool" where
  "is_space c =
     (c \<in> set [CHR 0x09, CHR 0x0A, CHR 0x0B, CHR 0x0C, CHR 0x0D,
                CHR 0x1C, CHR 0x1D, CHR 0x1E, CHR 0x1F, CHR '' ''])"

definition uppers :: string where
  "uppers = ''ABCDEFGHIJKLMNOPQRSTUVWXYZ''"

definition lowers :: string where
  "lowers = ''abcdefghijklmnopqrstuvwxyz''"

definition is_word :: "char \<Rightarrow> bool" where
  "is_word c = (is_digit c \<or> c \<in> set uppers \<or> c \<in> set lowers \<or> c = CHR ''_'')"

definition lower :: "char \<Rightarrow> char" where
  "lower c = (case map_of (zip uppers lowers) c of Some l \<Rightarrow> l | None \<Rightarrow> c)"

definition digit_val :: "char \<Rightarrow> int" where
  "digit_val c =
     (case map_of (zip ''0123456789'' [0, 1, 2, 3, 4, 5, 6, 7, 8, 9]) c of
        Some v \<Rightarrow> v
      | None \<Rightarrow> 0)"

text \<open>\<open>int(...)\<close> on a string of decimal digits.\<close>

definition int_of_digits :: "string \<Rightarrow> int" where
  "int_of_digits ds = foldl (\<lambda>n c. 10 * n + digit_val c) 0 ds"

subsection \<open>The patterns, as backtracking matchers\<close>

text \<open>
  Each piece of a pattern maps the text still to be read to the list of ways it can match,
  in the order the backtracking matcher of \<open>re\<close> tries them (greedy: longest first);
  a piece with a group also returns the text of the group.
\<close>

text \<open>\<open>#?\<close>\<close>

definition opt_hash :: "string \<Rightarrow> string list" where
  "opt_hash s = (case s of [] \<Rightarrow> [s] | c # r \<Rightarrow> if c = CHR ''#'' then [r, s] else [s])"

text \<open>\<open>\s*\<close>\<close>

fun star_space :: "string \<Rightarrow> string list" where
  "star_space [] = [[]]"
| "star_space (c # r) = (if is_space c then star_space r @ [c # r] else [c # r])"

text \<open>\<open>(\d{lo,hi})\<close>: the group and the rest.\<close>

definition rep_digits :: "nat \<Rightarrow> nat \<Rightarrow> string \<Rightarrow> (string \<times> string) list" where
  "rep_digits lo hi s =
     [(take k s, drop k s). k \<leftarrow> rev [lo..<Suc hi], k \<le> length s \<and> list_all is_digit (take k s)]"

text \<open>A literal under \<open>re.I\<close>: the text matched and the rest.\<close>

definition lit_ci :: "string \<Rightarrow> string \<Rightarrow> (string \<times> string) list" where
  "lit_ci pat s =
     (if length pat \<le> length s \<and> map lower (take (length pat) s) = map lower pat
      then [(take (length pat) s, drop (length pat) s)] else [])"

text \<open>\<open>\b\<close> between the text just matched and the rest.\<close>

definition word_at_end :: "string \<Rightarrow> bool" where
  "word_at_end matched = (case rev matched of [] \<Rightarrow> False | c # _ \<Rightarrow> is_word c)"

definition word_at_start :: "string \<Rightarrow> bool" where
  "word_at_start rest = (case rest of [] \<Rightarrow> False | c # _ \<Rightarrow> is_word c)"

definition at_boundary :: "string \<Rightarrow> string \<Rightarrow> bool" where
  "at_boundary matched rest = (word_at_end matched \<noteq> word_at_start rest)"

definition first_match :: "'a list \<Rightarrow> 'a option" where
  "first_match ms = (case ms of [] \<Rightarrow> None | m # _ \<Rightarrow> Some m)"

text \<open>
  \<open>(?:#?\s*)(\d{1,2})\s*AWG\b\<close> with \<open>re.I\<close>, anchored at the start of \<open>s\<close>:
  \<open>awg_suffix\<close> is \<open>\s*AWG\b\<close> after the group \<open>g\<close>, \<open>awg_group\<close> is the pattern
  from its group on, and the results are the texts of the group.
\<close>

definition awg_suffix :: "string \<Rightarrow> string \<Rightarrow> string list" where
  "awg_suffix g s3 =
     [g. s4 \<leftarrow> star_space s3, (m, s5) \<leftarrow> lit_ci ''AWG'' s4, at_boundary m s5]"

definition awg_group :: "string \<Rightarrow> string list" where
  "awg_group s2 = [h. (g, s3) \<leftarrow> rep_digits 1 2 s2, h \<leftarrow> awg_suffix g s3]"

definition awg_matches :: "string \<Rightarrow> string list" where
  "awg_matches s = [g. s1 \<leftarrow> opt_hash s, s2 \<leftarrow> star_space s1, g \<leftarrow> awg_group s2]"

definition awg_match_at :: "string \<Rightarrow> string option" where
  "awg_match_at s = first_match (awg_matches s)"








subsection \<open>Run aggregation\<close>

text \<open>
  A cell of the runs table is \<open>None\<close> when blank (\<open>NaN\<close>); \<open>fillna(0)\<close> reads it as 0.
\<close>

definition fillna0 :: "real option list \<Rightarrow> real list" where
  "fillna0 cells = map (\<lambda>c. case c of None \<Rightarrow> 0 | Some r \<Rightarrow> r) cells"

definition effective_runs :: "bool \<Rightarrow> real list \<Rightarrow> real list" where
  "effective_runs use_round_trip run_lengths =
     (if use_round_trip then map (\<lambda>r. r * 2) run_lengths else run_lengths)"

record aggregate =
  sum_runs_ft :: real
  slack_ft :: real
  total_cable_ft :: real
  total_conductor_ft :: real

definition aggregate_runs ::
  "real option list \<Rightarrow> bool \<Rightarrow> int \<Rightarrow> int \<Rightarrow> real \<Rightarrow> real \<Rightarrow> int \<Rightarrow> aggregate"
where
  "aggregate_runs cells use_round_trip conductor_count terminations slack_per_termination
       vertical_allowance waste_pct =
     (let run_lengths = fillna0 cells;
          sum_runs = sum_list (effective_runs use_round_trip run_lengths);
          total_slack = of_int terminations * (slack_per_termination + vertical_allowance);
          base_total = sum_runs + total_slack;
          total_with_waste = base_total * (1 + of_int waste_pct / 100);
          total_cable_feet = total_with_waste;
          total_conductor_feet = total_with_waste * of_int conductor_count
      in \<lparr>sum_runs_ft = sum_runs, slack_ft = total_slack,
          total_cable_ft = total_cable_feet, total_conductor_ft = total_conductor_feet\<rparr>)"

subsection \<open>Per-run voltage drop rows\<close>

text \<open>
  One row of the per-run table, before the two figures are rounded for display. The cell
  holding the length is \<open>None\<close> when it is \<open>NaN\<close>, which compares false with 0.
\<close>

record vdrop_row =
  run_label :: string
  one_way :: "real option"
  size_label :: string
  vdrop :: "real option"
  pct :: "real option"

definition blank_row :: "string \<Rightarrow> real option \<Rightarrow> vdrop_row" where
  "blank_row label cell =
     \<lparr>run_label = label, one_way = cell, size_label = [], vdrop = None, pct = None\<rparr>"

definition vdrop_row_for ::
  "string \<Rightarrow> real \<Rightarrow> real \<Rightarrow> real \<Rightarrow> string \<Rightarrow> real option \<Rightarrow> py_error + vdrop_row"
where
  "vdrop_row_for mat amps volts max_drop label cell =
     (case cell of
        None \<Rightarrow> Inr (blank_row label cell)
      | Some length_for_drop \<Rightarrow>
          if amps > 0 \<and> volts > 0 \<and> length_for_drop > 0 then
            (case suggest_awg mat amps volts length_for_drop max_drop of
               Inl e \<Rightarrow> Inl e
             | Inr (sz, v) \<Rightarrow>
                 if volts = 0 then Inl ZeroDivisionError
                 else Inr \<lparr>run_label = label, one_way = cell, size_label = awg_label sz,
                           vdrop = Some v, pct = Some ((v / volts) * 100)\<rparr>)
          else Inr (blank_row label cell))"

subsection \<open>Packaging override\<close>







subsection \<open>Packaging plan\<close>











section \<open>Properties\<close>

subsection \<open>The resistance tables\<close>

lemma copper_pairs:
  "sorted_wrt (\<lambda>p q. fst p > fst q \<and> snd p > snd q) COPPER_OHMS_PER_KFT"
  by (simp add: COPPER_OHMS_PER_KFT_def)

lemma al_pairs:
  "sorted_wrt (\<lambda>p q. fst p > fst q \<and> snd p > snd q) AL_OHMS_PER_KFT"
  by (simp add: AL_OHMS_PER_KFT_def)

lemma sorted_wrt_pairs_lookup:
  assumes "sorted_wrt (\<lambda>p q. fst p > fst q \<and> snd p > snd q) (t :: ohms_table)"
    and "a \<in> set (keys t)" "b \<in> set (keys t)" "a > b"
  shows "ohms t a > ohms t b"
proof -
  have d: "distinct (map fst t)"
    using assms(1) by (induction t) auto
  obtain ra where ra: "(a, ra) \<in> set t" using assms(2) by (auto simp: keys_def)
  obtain rb where rb: "(b, rb) \<in> set t" using assms(3) by (auto simp: keys_def)
  have ma: "map_of t a = Some ra" using d ra by simp
  have mb: "map_of t b = Some rb" using d rb by simp
  from ra rb obtain i j where i: "i < length t" "t ! i = (a, ra)" and j: "j < length t" "t ! j = (b, rb)"
    by (meson in_set_conv_nth)
  have "i < j"
  proof (rule ccontr)
    assume "\<not> i < j"
    then consider "i = j" | "j < i" by linarith
    then show False
    proof cases
      case 1 then show ?thesis using i j assms(4) by simp
    next
      case 2
      then have "fst (t ! j) > fst (t ! i)"
        using assms(1) i(1) by (simp add: sorted_wrt_iff_nth_less)
      then show ?thesis using i j assms(4) by simp
    qed
  qed
  then have "snd (t ! i) > snd (t ! j)"
    using assms(1) j(1) by (simp add: sorted_wrt_iff_nth_less)
  then show ?thesis using i j ma mb by (simp add: ohms_def)
qed

text \<open>
  Claim C7. In the copper and in the aluminum table, resistance strictly decreases as
  the size code decreases: for size codes \<open>a > b\<close> of a table, the resistance at \<open>a\<close>
  is greater than the resistance at \<open>b\<close>. The size codes of both tables lie between
  -3 and 14.
\<close>

theorem tables_strictly_decreasing:
  "(a \<in> set (keys COPPER_OHMS_PER_KFT) \<and> b \<in> set (keys COPPER_OHMS_PER_KFT) \<and> b < a
      \<longrightarrow> ohms COPPER_OHMS_PER_KFT b < ohms COPPER_OHMS_PER_KFT a) \<and>
   (a \<in> set (keys AL_OHMS_PER_KFT) \<and> b \<in> set (keys AL_OHMS_PER_KFT) \<and> b < a
      \<longrightarrow> ohms AL_OHMS_PER_KFT b < ohms AL_OHMS_PER_KFT a) \<and>
   set (keys COPPER_OHMS_PER_KFT) \<subseteq> {-3..14} \<and> set (keys AL_OHMS_PER_KFT) \<subseteq> {-3..14}"
  using sorted_wrt_pairs_lookup [OF copper_pairs, of a b]
        sorted_wrt_pairs_lookup [OF al_pairs, of a b]
  by (simp add: keys_def COPPER_OHMS_PER_KFT_def AL_OHMS_PER_KFT_def)

theorem tables_strictly_decreasing_witness:
  "ohms COPPER_OHMS_PER_KFT (-3) < ohms COPPER_OHMS_PER_KFT 14 \<and>
   ohms AL_OHMS_PER_KFT 0 < ohms AL_OHMS_PER_KFT 12"
  using tables_strictly_decreasing [of 14 "-3"] tables_strictly_decreasing [of 12 0]
  by (simp add: keys_def COPPER_OHMS_PER_KFT_def AL_OHMS_PER_KFT_def)

subsection \<open>Gauge selection\<close>

lemma awg_loop_find:
  assumes "volts \<noteq> 0" "set sizes \<subseteq> set (keys table)"
  shows "awg_loop table amps volts len maxd sizes =
         Inr (map_option (\<lambda>s. (s, drop_volts table amps len s))
                (find (\<lambda>s. drop_pct table amps volts len s \<le> maxd) sizes))"
  using assms(2)
proof (induction sizes)
  case Nil
  then show ?case by simp
next
  case (Cons sz rest)
  then have "sz \<in> fst ` set table" by (simp add: keys_def)
  then obtain r where r: "map_of table sz = Some r"
    by (metis domIff dom_map_of_conv_image_fst not_Some_eq)
  show ?case using Cons assms(1) r
    by (simp add: drop_pct_def drop_volts_def ohms_def Let_def)
qed


lemma sorted_desc_props:
  "sorted_wrt (\<lambda>x y. x \<ge> y) (sorted_desc xs)" "set (sorted_desc xs) = set xs"
  by (simp_all add: sorted_desc_def sorted_wrt_rev)

lemma last_sorted_desc:
  assumes "xs \<noteq> []"
  shows "last (sorted_desc xs) \<in> set xs \<and> (\<forall>y \<in> set xs. last (sorted_desc xs) \<le> y)"
proof -
  have ne: "sort xs \<noteq> []" using assms by (metis length_0_conv length_sort)
  then have l: "last (sorted_desc xs) = hd (sort xs)"
    by (simp add: sorted_desc_def last_rev)
  have "hd (sort xs) \<in> set (sort xs)" using ne by (rule hd_in_set)
  moreover have "\<forall>y \<in> set (sort xs). hd (sort xs) \<le> y"
    using ne sorted_sort [of xs] by (cases "sort xs") auto
  ultimately show ?thesis using l by simp
qed



text \<open>
  Claim C4. For positive current, voltage and one-way length: when no size code of the
  material's table meets the drop limit, \<open>suggest_awg\<close> still returns a value, the
  smallest size code of the table (-3, the thickest wire), paired with the drop in volts
  computed for it, which exceeds the limit.
\<close>

theorem suggest_awg_none_fits:
  assumes "amps > 0" "volts > 0" "one_way_ft > 0"
    and "\<forall>s \<in> set (keys (table_for material)).
           \<not> drop_pct (table_for material) amps volts one_way_ft s \<le> max_drop_pct"
  shows "\<exists>thickest. suggest_awg material amps volts one_way_ft max_drop_pct =
                  Inr (thickest, drop_volts (table_for material) amps one_way_ft thickest) \<and>
           thickest = -3 \<and>
           thickest \<in> set (keys (table_for material)) \<and>
           (\<forall>t \<in> set (keys (table_for material)). thickest \<le> t) \<and>
           drop_pct (table_for material) amps volts one_way_ft thickest > max_drop_pct"
proof -
  let ?T = "table_for material"
  let ?P = "\<lambda>s. drop_pct ?T amps volts one_way_ft s \<le> max_drop_pct"
  let ?sizes = "sorted_desc (keys ?T)"
  have ne: "keys ?T \<noteq> []"
    by (simp add: table_for_def keys_def COPPER_OHMS_PER_KFT_def AL_OHMS_PER_KFT_def)
  have ne': "?sizes \<noteq> []" using ne sorted_desc_props(2) [of "keys ?T"] by (metis set_empty)
  have f: "find ?P ?sizes = None" using assms(4) by (simp add: find_None_iff sorted_desc_props)
  have loop: "awg_loop ?T amps volts one_way_ft max_drop_pct ?sizes = Inr None"
    using awg_loop_find [of volts ?sizes ?T amps one_way_ft max_drop_pct] assms(2) f
    by (simp add: sorted_desc_props)
  let ?l = "last ?sizes"
  have l: "?l \<in> set (keys ?T) \<and> (\<forall>y \<in> set (keys ?T). ?l \<le> y)"
    using last_sorted_desc [OF ne] .
  then have "?l \<in> fst ` set ?T" by (simp add: keys_def)
  then obtain r where r: "map_of ?T ?l = Some r"
    by (metis domIff dom_map_of_conv_image_fst not_Some_eq)
  have res: "suggest_awg material amps volts one_way_ft max_drop_pct =
        Inr (?l, drop_volts ?T amps one_way_ft ?l)"
    using ne' r by (simp add: suggest_awg_def Let_def loop drop_volts_def ohms_def)
  have m3: "?l = -3"
    by (simp add: table_for_def sorted_desc_def keys_def COPPER_OHMS_PER_KFT_def AL_OHMS_PER_KFT_def)
  show ?thesis using res l assms(4) m3 by (intro exI [of _ ?l]) auto
qed

theorem suggest_awg_none_fits_witness:
  "suggest_awg ''aluminum'' 1000 12 1000 1 = Inr (-3, 155.8) \<and>
   drop_pct AL_OHMS_PER_KFT 1000 12 1000 (-3) > 1"
  using suggest_awg_none_fits [of 1000 12 1000 "''aluminum''" 1]
  by (simp add: suggest_awg_def table_for_def sorted_desc_def keys_def drop_pct_def
      drop_volts_def ohms_def AL_OHMS_PER_KFT_def)

subsection \<open>Per-run rows\<close>

text \<open>Called with a zero voltage, the selector itself would raise.\<close>

lemma suggest_awg_zero_volts:
  "suggest_awg mat amps 0 len maxd = Inl ZeroDivisionError"
  by (simp add: suggest_awg_def table_for_def sorted_desc_def keys_def
      COPPER_OHMS_PER_KFT_def AL_OHMS_PER_KFT_def)

text \<open>
  Claim C6. For a run row with current at most 0, or voltage at most 0, or a one-way
  length that is blank or at most 0, the selector is not consulted: the row is returned
  with the suggested gauge and both drop fields blank, and no error is raised.
\<close>

theorem vdrop_row_skipped:
  assumes "amps \<le> 0 \<or> volts \<le> 0 \<or> (case cell of None \<Rightarrow> True | Some l \<Rightarrow> l \<le> 0)"
  shows "vdrop_row_for mat amps volts max_drop label cell =
           Inr \<lparr>run_label = label, one_way = cell, size_label = [], vdrop = None, pct = None\<rparr>"
  using assms by (auto simp: vdrop_row_for_def blank_row_def split: option.splits)

theorem vdrop_row_skipped_witness:
  "vdrop_row_for ''copper'' 15 0 3 ''Run 1'' (Some 50) =
     Inr \<lparr>run_label = ''Run 1'', one_way = Some 50, size_label = [], vdrop = None, pct = None\<rparr> \<and>
   vdrop_row_for ''copper'' 0 120 3 ''Run 2'' (Some 75) =
     Inr \<lparr>run_label = ''Run 2'', one_way = Some 75, size_label = [], vdrop = None, pct = None\<rparr> \<and>
   vdrop_row_for ''copper'' 15 120 3 ''Run 3'' (Some 0) =
     Inr \<lparr>run_label = ''Run 3'', one_way = Some 0, size_label = [], vdrop = None, pct = None\<rparr>"
  using vdrop_row_skipped [of 15 0 "Some 50" "''copper''" 3 "''Run 1''"]
        vdrop_row_skipped [of 0 120 "Some 75" "''copper''" 3 "''Run 2''"]
        vdrop_row_skipped [of 15 120 "Some 0" "''copper''" 3 "''Run 3''"]
  by simp

subsection \<open>Run aggregation\<close>

lemma sum_list_doubled: "sum_list (map (\<lambda>r. r * 2) xs) = 2 * sum_list (xs :: real list)"
  by (induction xs) simp_all

text \<open>
  Claim C2. The aggregation computes: each effective run is twice the run when
  round-trip is set and the run itself otherwise; the sum of runs is the sum of the
  effective runs; the slack is the termination count times the sum of slack per
  termination and vertical allowance; the total cable is sum of runs plus slack, times
  \<open>1 + waste_pct / 100\<close>; the total conductor length is the total cable times the
  conductor count. Runs of 50, 75 and 100 ft with round-trip set give a sum of 450.
\<close>

theorem aggregate_runs_formulas:
  "effective_runs rt (fillna0 cells) = map (\<lambda>r. if rt then r * 2 else r) (fillna0 cells) \<and>
   sum_runs_ft (aggregate_runs cells rt cc terms slack vert waste) =
     sum_list (effective_runs rt (fillna0 cells)) \<and>
   sum_runs_ft (aggregate_runs cells rt cc terms slack vert waste) =
     (if rt then 2 * sum_list (fillna0 cells) else sum_list (fillna0 cells)) \<and>
   slack_ft (aggregate_runs cells rt cc terms slack vert waste) =
     of_int terms * (slack + vert) \<and>
   total_cable_ft (aggregate_runs cells rt cc terms slack vert waste) =
     (sum_runs_ft (aggregate_runs cells rt cc terms slack vert waste) +
      slack_ft (aggregate_runs cells rt cc terms slack vert waste)) * (1 + of_int waste / 100) \<and>
   total_conductor_ft (aggregate_runs cells rt cc terms slack vert waste) =
     total_cable_ft (aggregate_runs cells rt cc terms slack vert waste) * of_int cc \<and>
   sum_runs_ft (aggregate_runs [Some 50, Some 75, Some 100] True cc terms slack vert waste) = 450"
proof -
  have eff: "effective_runs rt (fillna0 cells) = map (\<lambda>r. if rt then r * 2 else r) (fillna0 cells)"
    by (simp add: effective_runs_def)
  have dbl: "sum_list (effective_runs rt (fillna0 cells)) =
      (if rt then 2 * sum_list (fillna0 cells) else sum_list (fillna0 cells))"
    by (simp add: effective_runs_def sum_list_doubled)
  have fields: "sum_runs_ft (aggregate_runs cells rt cc terms slack vert waste) =
      sum_list (effective_runs rt (fillna0 cells))"
    "slack_ft (aggregate_runs cells rt cc terms slack vert waste) = of_int terms * (slack + vert)"
    "total_cable_ft (aggregate_runs cells rt cc terms slack vert waste) =
     (sum_runs_ft (aggregate_runs cells rt cc terms slack vert waste) +
      slack_ft (aggregate_runs cells rt cc terms slack vert waste)) * (1 + of_int waste / 100)"
    "total_conductor_ft (aggregate_runs cells rt cc terms slack vert waste) =
     total_cable_ft (aggregate_runs cells rt cc terms slack vert waste) * of_int cc"
    by (simp_all add: aggregate_runs_def Let_def)
  have ex: "sum_runs_ft (aggregate_runs [Some 50, Some 75, Some 100] True cc terms slack vert waste) = 450"
    by (simp add: aggregate_runs_def effective_runs_def fillna0_def Let_def)
  show ?thesis using eff dbl fields ex by simp
qed

subsection \<open>Gauge labels\<close>

lemma digit_char_is_digit: "k < 10 \<Longrightarrow> is_digit (digit_char k)"
proof -
  assume "k < 10"
  then have "k \<in> {0, 1, 2, 3, 4, 5, 6, 7, 8, 9}" by auto
  then show ?thesis by (auto simp: digit_char_def is_digit_def)
qed

lemma digit_val_digit_char: "k < 10 \<Longrightarrow> digit_val (digit_char k) = int k"
proof -
  assume "k < 10"
  then have "k \<in> {0, 1, 2, 3, 4, 5, 6, 7, 8, 9}" by auto
  then show ?thesis by (auto simp: digit_char_def digit_val_def)
qed

lemma str_nat_digits: "list_all is_digit (str_nat n)"
proof (induction n rule: str_nat.induct)
  case (1 n)
  show ?case
  proof (cases "n < 10")
    case True
    then show ?thesis by (subst str_nat.simps) (simp add: digit_char_is_digit)
  next
    case False
    then show ?thesis using 1 by (subst str_nat.simps) (simp add: digit_char_is_digit)
  qed
qed

lemma int_of_digits_snoc: "int_of_digits (ds @ [c]) = 10 * int_of_digits ds + digit_val c"
  by (simp add: int_of_digits_def)

lemma int_of_digits_str_nat: "int_of_digits (str_nat n) = int n"
proof (induction n rule: str_nat.induct)
  case (1 n)
  show ?case
  proof (cases "n < 10")
    case True
    then show ?thesis
      by (subst str_nat.simps) (simp add: int_of_digits_def digit_val_digit_char)
  next
    case False
    then have ih: "int_of_digits (str_nat (n div 10)) = int (n div 10)" using 1 by simp
    have ar: "10 * int (n div 10) + int (n mod 10) = int n" by presburger
    have "int_of_digits (str_nat (n div 10) @ [digit_char (n mod 10)]) = int n"
      using ih ar by (simp add: int_of_digits_snoc digit_val_digit_char)
    then show ?thesis using False by (subst str_nat.simps) simp
  qed
qed

lemma digit_char_nonzero: "0 < k \<Longrightarrow> k < 10 \<Longrightarrow> digit_char k \<noteq> CHR ''0''"
proof -
  assume "0 < k" "k < 10"
  then have "k \<in> {1, 2, 3, 4, 5, 6, 7, 8, 9}" by auto
  then show ?thesis by (auto simp: digit_char_def)
qed

lemma str_nat_nonempty: "str_nat n \<noteq> []"
  by (subst str_nat.simps) simp

lemma str_nat_no_leading_zero: "0 < n \<Longrightarrow> hd (str_nat n) \<noteq> CHR ''0''"
proof (induction n rule: str_nat.induct)
  case (1 n)
  show ?case
  proof (cases "n < 10")
    case True
    then show ?thesis using 1(2) by (subst str_nat.simps) (simp add: digit_char_nonzero)
  next
    case False
    then have "0 < n div 10" by simp
    then have "hd (str_nat (n div 10)) \<noteq> CHR ''0''" using 1(1) False by simp
    then show ?thesis using False str_nat_nonempty [of "n div 10"]
      by (subst str_nat.simps) simp
  qed
qed

text \<open>
  Claim C9. A non-negative size code \<open>n\<close> is labelled with its decimal numeral (digits
  only, of value \<open>n\<close>, without a leading zero) followed by \<open>AWG\<close>: 0 gives \<open>0 AWG\<close>
  and 6 gives \<open>6 AWG\<close>; -1, -2 and -3 are labelled \<open>2/0 AWG\<close>, \<open>3/0 AWG\<close> and
  \<open>4/0 AWG\<close>.
\<close>

theorem awg_label_mapping:
  "(n \<ge> 0 \<longrightarrow> awg_label n = str_int n @ '' AWG'' \<and> list_all is_digit (str_int n) \<and>
       int_of_digits (str_int n) = n \<and> (0 < n \<longrightarrow> hd (str_int n) \<noteq> CHR ''0'')) \<and>
   awg_label 0 = ''0 AWG'' \<and> awg_label 6 = ''6 AWG'' \<and>
   awg_label (-1) = ''2/0 AWG'' \<and> awg_label (-2) = ''3/0 AWG'' \<and> awg_label (-3) = ''4/0 AWG''"
proof -
  have "awg_label 0 = ''0 AWG''" "awg_label 6 = ''6 AWG''"
    by (simp_all add: awg_label_def str_int_def str_nat.simps digit_char_def)
  moreover have "awg_label (-1) = ''2/0 AWG''" "awg_label (-2) = ''3/0 AWG''"
    "awg_label (-3) = ''4/0 AWG''"
    by (simp_all add: awg_label_def)
  moreover have "n \<ge> 0 \<longrightarrow> awg_label n = str_int n @ '' AWG'' \<and> list_all is_digit (str_int n) \<and>
       int_of_digits (str_int n) = n \<and> (0 < n \<longrightarrow> hd (str_int n) \<noteq> CHR ''0'')"
    by (simp add: awg_label_def str_int_def str_nat_digits int_of_digits_str_nat
        str_nat_no_leading_zero)
  ultimately show ?thesis by blast
qed

theorem awg_label_mapping_witness:
  "awg_label 14 = ''14 AWG'' \<and> int_of_digits ''14'' = 14"
  using awg_label_mapping [of 14]
  by (simp add: str_int_def str_nat.simps digit_char_def)

subsection \<open>Packaging plan\<close>









subsection \<open>Packaging override\<close>





subsection \<open>Gauge extraction\<close>

text \<open>
  The pieces of the gauge pattern never overlap: whitespace is neither a digit nor the
  start of \<open>AWG\<close>, and a digit is neither. So backtracking never finds a second way, and
  the search obeys simple equations, one for a text starting with a digit and one for
  any other.
\<close>

lemma space_not_digit: "is_space c \<Longrightarrow> \<not> is_digit c"
  by (auto simp: is_space_def is_digit_def)









lemma star_space_bind:
  assumes "\<And>c r. is_space c \<Longrightarrow> f (c # r) = []"
  shows "concat (map f (star_space s)) = f (dropWhile is_space s)"
  by (induction s) (simp_all add: assms)




lemma rep_digits_1_2:
  "rep_digits (Suc 0) 2 s =
     (if 2 \<le> length s \<and> list_all is_digit (take 2 s) then [(take 2 s, drop 2 s)] else []) @
     (if Suc 0 \<le> length s \<and> list_all is_digit (take (Suc 0) s)
      then [(take (Suc 0) s, drop (Suc 0) s)] else [])"
proof -
  have "rev [Suc 0..<Suc 2] = [2, Suc 0]" by (simp add: upt_rec)
  then show ?thesis by (simp add: rep_digits_def)
qed

lemma awg_group_Nil: "awg_group [] = []"
  by (simp add: awg_group_def rep_digits_1_2)

lemma awg_group_nondigit: "\<not> is_digit c \<Longrightarrow> awg_group (c # r) = []"
  by (simp add: awg_group_def rep_digits_1_2 take_Cons')




lemma awg_group_space: "is_space c \<Longrightarrow> awg_group (c # r) = []"
  by (simp add: awg_group_nondigit space_not_digit)

lemma awg_matches_eq:
  "awg_matches s =
     (case s of
        [] \<Rightarrow> []
      | c # r \<Rightarrow> if c = CHR ''#'' then awg_group (dropWhile is_space r)
                 else awg_group (dropWhile is_space s))"
proof -
  have sp: "\<And>t. concat (map awg_group (star_space t)) = awg_group (dropWhile is_space t)"
    by (rule star_space_bind) (rule awg_group_space)
  have hash: "\<not> is_space CHR ''#''" "\<not> is_digit CHR ''#''"
    by (simp_all add: is_space_def is_digit_def)
  show ?thesis
  proof (cases s)
    case Nil
    then show ?thesis by (simp add: awg_matches_def opt_hash_def awg_group_Nil)
  next
    case (Cons c r)
    show ?thesis
    proof (cases "c = CHR ''#''")
      case True
      then have "awg_matches s =
          concat (map awg_group (star_space r)) @ concat (map awg_group (star_space s))"
        using Cons by (simp add: awg_matches_def opt_hash_def)
      also have "\<dots> = awg_group (dropWhile is_space r) @ awg_group (dropWhile is_space s)"
        by (simp only: sp)
      also have "\<dots> = awg_group (dropWhile is_space r)"
        using True Cons hash by (simp add: awg_group_nondigit)
      finally show ?thesis using True Cons by simp
    next
      case False
      then have "awg_matches s = concat (map awg_group (star_space s))"
        using Cons by (simp add: awg_matches_def opt_hash_def)
      then show ?thesis using False Cons by (simp only: sp) simp
    qed
  qed
qed


lemma awg_match_at_Nil: "awg_match_at [] = None"
  by (simp add: awg_match_at_def awg_matches_eq first_match_def)
















end
